theory Spec2Isabelle
  imports Complex_Main
begin

section \<open>JavaScript values and strings\<close>

text \<open>
  A JavaScript string is modelled as an Isabelle \<open>string\<close>: a list of code units, each
  in the range 0..255. Lengths, indices and character classes are those of the source
  on every string whose code units all lie in that range.
\<close>

definition cu :: "char \<Rightarrow> nat" where
  "cu c = of_char c"

definition in_range :: "nat \<Rightarrow> nat \<Rightarrow> char \<Rightarrow> bool" where
  "in_range lo hi c = (lo \<le> cu c \<and> cu c \<le> hi)"

text \<open>Numbers: the finite values are rationals; NaN and the two infinities are separate.\<close>

datatype jsnum = NaN | NegInfinity | Finite rat | PosInfinity

datatype jsval =
    JUndefined
  | JNull
  | JBool bool
  | JNum jsnum
  | JStr string
  | JObj "(string \<times> jsval) list"

text \<open>\<open>!v\<close> is \<open>\<not> truthy v\<close>: undefined, null, false, 0, NaN and the empty string are falsy.\<close>

fun truthy :: "jsval \<Rightarrow> bool" where
  "truthy JUndefined = False"
| "truthy JNull = False"
| "truthy (JBool b) = b"
| "truthy (JNum n) = (n \<noteq> NaN \<and> n \<noteq> Finite 0)"
| "truthy (JStr s) = (s \<noteq> [])"
| "truthy (JObj fs) = True"


fun js_or :: "jsval \<Rightarrow> jsval \<Rightarrow> jsval" where
  "js_or a b = (if truthy a then a else b)"

subsection \<open>String.prototype.trim, toLowerCase, toUpperCase, split, includes\<close>

text \<open>WhiteSpace and LineTerminator code units below 256: TAB, LF, VT, FF, CR, SP, NBSP.\<close>

definition is_js_space :: "char \<Rightarrow> bool" where
  "is_js_space c = (in_range 9 13 c \<or> cu c = 32 \<or> cu c = 160)"

definition trim :: "string \<Rightarrow> string" where
  "trim s = rev (dropWhile is_js_space (rev (dropWhile is_js_space s)))"

text \<open>
  \<open>toLowerCase\<close> on code units below 256: A-Z and the Latin-1 capitals (0xC0-0xDE
  except the multiplication sign 0xD7) move up by 0x20.
\<close>

definition lower_char :: "char \<Rightarrow> char" where
  "lower_char c =
     (if in_range 65 90 c \<or> (in_range 192 222 c \<and> cu c \<noteq> 215)
      then char_of (cu c + 32) else c)"

definition toLowerCase :: "string \<Rightarrow> string" where
  "toLowerCase s = map lower_char s"

text \<open>
  \<open>toUpperCase\<close> is only applied by the source to strings that have passed an ASCII
  character-class test; a-z move down by 0x20, every other code unit is kept.
\<close>

definition upper_char :: "char \<Rightarrow> char" where
  "upper_char c = (if in_range 97 122 c then char_of (cu c - 32) else c)"

definition toUpperCase :: "string \<Rightarrow> string" where
  "toUpperCase s = map upper_char s"

fun startsWith :: "string \<Rightarrow> string \<Rightarrow> bool" where
  "startsWith s [] = True"
| "startsWith [] (p # ps) = False"
| "startsWith (c # cs) (p # ps) = (c = p \<and> startsWith cs ps)"

fun str_includes :: "string \<Rightarrow> string \<Rightarrow> bool" where
  "str_includes [] sub = (sub = [])"
| "str_includes (c # cs) sub = (startsWith (c # cs) sub \<or> str_includes cs sub)"

text \<open>
  \<open>s.split(sep)\<close> for a non-empty separator string: \<open>skip\<close> counts the code units
  of a separator occurrence still to pass over. \<open>.split(,)\<close> is \<open>[]\<close>.
\<close>

fun split_acc :: "string \<Rightarrow> nat \<Rightarrow> string \<Rightarrow> string \<Rightarrow> string list" where
  "split_acc sep skip acc [] = [rev acc]"
| "split_acc sep skip acc (c # cs) =
     (if skip > 0 then split_acc sep (skip - 1) acc cs
      else if startsWith (c # cs) sep then rev acc # split_acc sep (length sep - 1) [] cs
      else split_acc sep 0 (c # acc) cs)"

definition str_split :: "string \<Rightarrow> string \<Rightarrow> string list" where
  "str_split sep s = split_acc sep 0 [] s"


subsection \<open>Regular expressions\<close>

text \<open>
  The regular expressions of the source, matched against the whole subject (\<open>^...$\<close>).
  \<open>Cls\<close> is a character class given by code-unit ranges, \<open>Dot\<close> is \<open>.\<close> (anything but
  a line terminator), \<open>AnyCU\<close> any code unit (used for the unanchored ends of a search).
\<close>

datatype rx =
    Fail
  | Empty
  | Cls "(nat \<times> nat) list"
  | Dot
  | AnyCU
  | Cat rx rx
  | Or rx rx
  | Rep rx

fun in_cls :: "(nat \<times> nat) list \<Rightarrow> char \<Rightarrow> bool" where
  "in_cls [] c = False"
| "in_cls ((lo, hi) # rs) c = (in_range lo hi c \<or> in_cls rs c)"

fun empty_ok :: "rx \<Rightarrow> bool" where
  "empty_ok Fail = False"
| "empty_ok Empty = True"
| "empty_ok (Cls rs) = False"
| "empty_ok Dot = False"
| "empty_ok AnyCU = False"
| "empty_ok (Cat a b) = (empty_ok a \<and> empty_ok b)"
| "empty_ok (Or a b) = (empty_ok a \<or> empty_ok b)"
| "empty_ok (Rep a) = True"

text \<open>The residual of a pattern after one code unit, kept small by the smart constructors.\<close>

fun cat :: "rx \<Rightarrow> rx \<Rightarrow> rx" where
  "cat Fail b = Fail"
| "cat Empty b = b"
| "cat a b = Cat a b"

fun alt :: "rx \<Rightarrow> rx \<Rightarrow> rx" where
  "alt Fail b = b"
| "alt a Fail = a"
| "alt a b = Or a b"

fun after :: "char \<Rightarrow> rx \<Rightarrow> rx" where
  "after c Fail = Fail"
| "after c Empty = Fail"
| "after c (Cls rs) = (if in_cls rs c then Empty else Fail)"
| "after c Dot = (if cu c = 10 \<or> cu c = 13 then Fail else Empty)"
| "after c AnyCU = Empty"
| "after c (Cat a b) =
     (if empty_ok a then alt (cat (after c a) b) (after c b) else cat (after c a) b)"
| "after c (Or a b) = alt (after c a) (after c b)"
| "after c (Rep a) = cat (after c a) (Rep a)"

fun rx_match :: "rx \<Rightarrow> string \<Rightarrow> bool" where
  "rx_match r [] = empty_ok r"
| "rx_match r (c # cs) = rx_match (after c r) cs"

definition Chr :: "char \<Rightarrow> rx" where
  "Chr c = Cls [(cu c, cu c)]"

fun Lit :: "string \<Rightarrow> rx" where
  "Lit [] = Empty"
| "Lit (c # cs) = Cat (Chr c) (Lit cs)"

definition Plus :: "rx \<Rightarrow> rx" where
  "Plus r = Cat r (Rep r)"

definition Opt :: "rx \<Rightarrow> rx" where
  "Opt r = Or r Empty"

definition digit :: rx where
  "digit = Cls [(48, 57)]"

text \<open>A letter under the \<open>i\<close> flag matches in either case.\<close>

definition ChrI :: "char \<Rightarrow> rx" where
  "ChrI c = Cls [(cu (lower_char c), cu (lower_char c)), (cu (upper_char c), cu (upper_char c))]"

fun LitI :: "string \<Rightarrow> rx" where
  "LitI [] = Empty"
| "LitI (c # cs) = Cat (ChrI c) (LitI cs)"

text \<open>\<open>/r/\<close> without anchors finds \<open>r\<close> anywhere; \<open>/^r/\<close> at the start only.\<close>

definition anywhere :: "rx \<Rightarrow> rx" where
  "anywhere r = Cat (Rep AnyCU) (Cat r (Rep AnyCU))"

definition at_start :: "rx \<Rightarrow> rx" where
  "at_start r = Cat r (Rep AnyCU)"

definition cats :: "rx list \<Rightarrow> rx" where
  "cats rs = foldr Cat rs Empty"

subsection \<open>Template literals and Array.prototype.join\<close>

fun show_nat :: "nat \<Rightarrow> string" where
  "show_nat n =
     (if n < 10 then [char_of (48 + n)]
      else show_nat (n div 10) @ [char_of (48 + n mod 10)])"

fun join :: "string \<Rightarrow> string list \<Rightarrow> string" where
  "join sep [] = []"
| "join sep [x] = x"
| "join sep (x # y # ys) = x @ sep @ join sep (y # ys)"

section \<open>Input validation and sanitization (the validation module)\<close>

text \<open>
  \<open>class ValidationError\<close>: its \<open>name\<close> is always \<open>ValidationError\<close>; the constructor
  derives \<open>userMessage\<close> from the field and the message. A \<open>throw\<close> is the \<open>Inl\<close> of a sum.
\<close>

record validation_error =
  ve_field :: string
  ve_message :: string
  ve_userMessage :: string

definition ValidationError :: "string \<Rightarrow> string \<Rightarrow> validation_error" where
  "ValidationError f m =
     \<lparr>ve_field = f, ve_message = m, ve_userMessage = ''Invalid '' @ f @ '': '' @ m\<rparr>"

record username_rules =
  minLength :: nat
  maxLength :: nat
  pattern :: rx
  blacklist :: "string list"
  pathTraversal :: rx

definition USERNAME_RULES :: username_rules where
  "USERNAME_RULES =
     \<lparr>minLength = 1,
      maxLength = 100,
      pattern = Plus (Cls [(97, 122), (65, 90), (48, 57), (46, 46), (95, 95), (45, 45)]),
      blacklist = [''SELECT'', ''INSERT'', ''UPDATE'', ''DELETE'', ''DROP'', ''CREATE'',
                   ''ALTER'', ''EXEC'', ''EXECUTE'', ''SCRIPT'', ''JAVASCRIPT''],
      pathTraversal = anywhere (Lit ''..'')\<rparr>"

text \<open>The \<open>for (const blocked of blacklist)\<close> loop: the first keyword found throws.\<close>

fun check_blacklist :: "string \<Rightarrow> string list \<Rightarrow> validation_error option" where
  "check_blacklist upperUsername [] = None"
| "check_blacklist upperUsername (blocked # rest) =
     (if str_includes upperUsername blocked
      then Some (ValidationError ''username'' ''Username contains blocked keywords'')
      else check_blacklist upperUsername rest)"

definition validateUsername :: "jsval \<Rightarrow> validation_error + string" where
  "validateUsername username =
     (if \<not> truthy username then
        Inl (ValidationError ''username'' ''Username is required'')
      else case username of
        JStr s \<Rightarrow>
          (let u = trim s in
           if length u < minLength USERNAME_RULES then
             Inl (ValidationError ''username''
                    (''Username must be at least '' @ show_nat (minLength USERNAME_RULES)
                       @ '' character''))
           else if length u > maxLength USERNAME_RULES then
             Inl (ValidationError ''username''
                    (''Username cannot exceed '' @ show_nat (maxLength USERNAME_RULES)
                       @ '' characters''))
           else if \<not> rx_match (pattern USERNAME_RULES) u then
             Inl (ValidationError ''username''
                    ''Username can only contain letters, numbers, dots, underscores, and hyphens'')
           else if rx_match (pathTraversal USERNAME_RULES) u then
             Inl (ValidationError ''username'' ''Invalid username format'')
           else case check_blacklist (toUpperCase u) (blacklist USERNAME_RULES) of
             Some err \<Rightarrow> Inl err
           | None \<Rightarrow> Inr u)
      | _ \<Rightarrow> Inl (ValidationError ''username'' ''Username must be a string''))"

text \<open>
  \<open>usernameList.map((username, index) => ...)\<close>: elements are validated left to right
  and the first failure is rethrown with the element's position \<open>index + 1\<close>.
\<close>

fun validate_each :: "nat \<Rightarrow> string list \<Rightarrow> validation_error + string list" where
  "validate_each index [] = Inr []"
| "validate_each index (username # rest) =
     (case validateUsername (JStr username) of
        Inl err \<Rightarrow>
          Inl (ValidationError ''usernames''
                 (''Username #'' @ show_nat (index + 1) @ '' is invalid: '' @ ve_userMessage err))
      | Inr v \<Rightarrow>
          (case validate_each (index + 1) rest of
             Inl e \<Rightarrow> Inl e
           | Inr vs \<Rightarrow> Inr (v # vs)))"

definition usernameList :: "string \<Rightarrow> string list" where
  "usernameList usernames = filter (\<lambda>u. u \<noteq> []) (map trim (str_split '','' usernames))"

definition validateUsernames :: "jsval \<Rightarrow> validation_error + string list" where
  "validateUsernames usernames =
     (if \<not> truthy usernames then
        Inl (ValidationError ''usernames'' ''At least one username is required'')
      else case usernames of
        JStr s \<Rightarrow>
          (if length (usernameList s) = 0 then
             Inl (ValidationError ''usernames'' ''At least one valid username is required'')
           else if length (usernameList s) > 50 then
             Inl (ValidationError ''usernames'' ''Maximum 50 usernames allowed per request'')
           else validate_each 0 (usernameList s))
      | _ \<Rightarrow> Inl (ValidationError ''usernames'' ''Usernames must be a string''))"

definition validModes :: "string list" where
  "validModes = [''fast'', ''slow'', ''special'']"

definition validateMode :: "jsval \<Rightarrow> validation_error + string" where
  "validateMode mode =
     (if \<not> truthy mode then Inr ''fast''
      else case mode of
        JStr s \<Rightarrow>
          (let m = toLowerCase (trim s) in
           if m \<notin> set validModes then
             Inl (ValidationError ''mode'' (''Mode must be one of: '' @ join '', '' validModes))
           else Inr m)
      | _ \<Rightarrow> Inl (ValidationError ''mode'' ''Mode must be a string''))"



subsection \<open>URL validation\<close>

text \<open>
  \<open>validateUrl\<close> calls two functions that are not part of the repository: the
  \<open>validator\<close> package's \<open>isURL\<close> (here with the fixed options of the call:
  protocols http and https, protocol required and checked, underscores allowed) and the
  platform's \<open>URL\<close> constructor, which throws on a string it cannot parse (\<open>None\<close>).
  Both are parameters of the model.
\<close>

record parsed_url =
  url_protocol :: string
  url_username :: string
  url_password :: string
  url_host :: string
  url_hostname :: string
  url_pathname :: string

definition privatePatterns :: "rx list" where
  "privatePatterns =
     [LitI ''localhost'',
      cats [Lit ''127'', Chr CHR ''.'', Plus digit, Chr CHR ''.'', Plus digit, Chr CHR ''.'', Plus digit],
      cats [Lit ''10'', Chr CHR ''.'', Plus digit, Chr CHR ''.'', Plus digit, Chr CHR ''.'', Plus digit],
      cats [Lit ''172'', Chr CHR ''.'',
            Or (Cat (Chr CHR ''1'') (Cls [(54, 57)]))
               (Or (Cat (Chr CHR ''2'') digit) (Cat (Chr CHR ''3'') (Cls [(48, 49)]))),
            Chr CHR ''.'', Plus digit, Chr CHR ''.'', Plus digit],
      cats [Lit ''192'', Chr CHR ''.'', Lit ''168'', Chr CHR ''.'', Plus digit, Chr CHR ''.'', Plus digit],
      Lit ''::1'',
      at_start (LitI ''fe80:'')]"

text \<open>The \<open>for (const pattern of privatePatterns)\<close> loop: the first match throws.\<close>

fun check_private :: "string \<Rightarrow> rx list \<Rightarrow> validation_error option" where
  "check_private hostname [] = None"
| "check_private hostname (p # ps) =
     (if rx_match p hostname
      then Some (ValidationError ''url'' ''Private/internal URLs are not allowed'')
      else check_private hostname ps)"

text \<open>
  \<open>production\<close> is \<open>process.env.NODE_ENV === 'production'\<close>; \<open>optional\<close> is the
  truthiness of \<open>options.optional\<close>.
\<close>

definition validateUrl ::
  "(string \<Rightarrow> bool) \<Rightarrow> (string \<Rightarrow> parsed_url option) \<Rightarrow> bool \<Rightarrow> jsval \<Rightarrow> bool
     \<Rightarrow> validation_error + string" where
  "validateUrl isURL URL production url optional =
     (if \<not> truthy url then
        (if optional then Inr [] else Inl (ValidationError ''url'' ''URL is required''))
      else case url of
        JStr s \<Rightarrow>
          (let u = trim s in
           if \<not> isURL u then Inl (ValidationError ''url'' ''Invalid URL format'')
           else case URL u of
             None \<Rightarrow> Inl (ValidationError ''url'' ''Invalid URL format'')
           | Some parsed \<Rightarrow>
               (if production then
                  (case check_private (toLowerCase (url_hostname parsed)) privatePatterns of
                     Some err \<Rightarrow> Inl err
                   | None \<Rightarrow> Inr u)
                else Inr u))
      | _ \<Rightarrow> Inl (ValidationError ''url'' ''URL must be a string''))"

text \<open>
  Two strings differ only in case: the second is in lower case and each code unit of the
  first is the same unit or its capital.
\<close>

definition differs_only_in_case :: "string \<Rightarrow> string \<Rightarrow> bool" where
  "differs_only_in_case w m = list_all2 (\<lambda>c d. c = d \<or> c = upper_char d) w m"


text \<open>
  One concrete pair of external functions, for evaluating the model on concrete inputs:
  \<open>isURL\<close> accepts what starts with an http or https scheme, and \<open>URL\<close> splits
  an http or https URL into credentials, host and path.
\<close>

definition sample_isURL :: "string \<Rightarrow> bool" where
  "sample_isURL u = (startsWith u ''http://'' \<or> startsWith u ''https://'')"

definition sample_rest :: "string \<Rightarrow> string \<Rightarrow> parsed_url option" where
  "sample_rest protocol r =
     (let authority = takeWhile (\<lambda>c. c \<noteq> CHR ''/'') r;
          path = dropWhile (\<lambda>c. c \<noteq> CHR ''/'') r;
          userinfo = (if CHR ''@'' \<in> set authority
                      then takeWhile (\<lambda>c. c \<noteq> CHR ''@'') authority else []);
          hostport = (if CHR ''@'' \<in> set authority
                      then drop 1 (dropWhile (\<lambda>c. c \<noteq> CHR ''@'') authority) else authority)
      in if hostport = [] then None
         else Some \<lparr>url_protocol = protocol,
                    url_username = takeWhile (\<lambda>c. c \<noteq> CHR '':'') userinfo,
                    url_password = drop 1 (dropWhile (\<lambda>c. c \<noteq> CHR '':'') userinfo),
                    url_host = hostport,
                    url_hostname = takeWhile (\<lambda>c. c \<noteq> CHR '':'') hostport,
                    url_pathname = (if path = [] then ''/'' else path)\<rparr>)"

definition sample_URL :: "string \<Rightarrow> parsed_url option" where
  "sample_URL u =
     (if startsWith u ''http://'' then sample_rest ''http:'' (drop 7 u)
      else if startsWith u ''https://'' then sample_rest ''https:'' (drop 8 u)
      else None)"

section \<open>Error taxonomy and response builder (the error-handler module)\<close>

record error_types =
  VALIDATION :: string
  AUTHENTICATION :: string
  AUTHORIZATION :: string
  NOT_FOUND :: string
  RATE_LIMIT :: string
  INTERNAL :: string
  CONFIGURATION :: string
  NETWORK :: string
  TIMEOUT :: string

definition ErrorTypes :: error_types where
  "ErrorTypes =
     \<lparr>VALIDATION = ''validation_error'',
      AUTHENTICATION = ''authentication_error'',
      AUTHORIZATION = ''authorization_error'',
      NOT_FOUND = ''not_found'',
      RATE_LIMIT = ''rate_limit_exceeded'',
      INTERNAL = ''internal_error'',
      CONFIGURATION = ''configuration_error'',
      NETWORK = ''network_error'',
      TIMEOUT = ''timeout_error''\<rparr>"

text \<open>
  The thrown value \<open>err\<close> as \<open>createErrorResponse\<close> reads it: the properties it looks
  up (each may be undefined or of any type) and whether \<open>err instanceof AppError\<close>.
\<close>

record failure =
  err_name :: jsval
  err_message :: jsval
  err_userMessage :: jsval
  err_code :: jsval
  err_statusCode :: jsval
  err_stack :: jsval
  err_type :: jsval
  err_details :: jsval
  instanceof_AppError :: bool

text \<open>
  The response object. \<open>statusCode\<close>, \<open>stack\<close> and \<open>details\<close> are keys that the
  function may or may not add: \<open>None\<close> is a missing key.
\<close>

record response =
  resp_error :: bool
  resp_message :: jsval
  resp_type :: jsval
  resp_timestamp :: string
  resp_statusCode :: "jsval option"
  resp_stack :: "jsval option"
  resp_details :: "jsval option"

text \<open>
  \<open>production\<close> is \<open>process.env.NODE_ENV === 'production'\<close>, \<open>verbose\<close> is the
  \<open>VERBOSE\<close> field of the configuration snapshot (a boolean after validation) and
  \<open>now\<close> is \<open>new Date().toISOString()\<close>. The function reads \<open>VERBOSE\<close> through the
  configuration module's \<open>get\<close>, which throws until the configuration has been loaded:
  the definition is of the calls made once it has, with \<open>err\<close> an object.
\<close>

definition createErrorResponse :: "bool \<Rightarrow> bool \<Rightarrow> string \<Rightarrow> failure \<Rightarrow> response" where
  "createErrorResponse production verbose now err =
     (let isDevelopment = \<not> production;
          response = \<lparr>resp_error = True,
                      resp_message = JStr ''An error occurred'',
                      resp_type = JStr (INTERNAL ErrorTypes),
                      resp_timestamp = now,
                      resp_statusCode = None,
                      resp_stack = None,
                      resp_details = None\<rparr>
      in
      if err_name err = JStr ''ValidationError'' then
        response\<lparr>resp_message := js_or (err_userMessage err) (err_message err),
                 resp_type := JStr (VALIDATION ErrorTypes),
                 resp_statusCode := Some (JNum (Finite 400))\<rparr>
      else if instanceof_AppError err then
        (let r = response\<lparr>resp_message := err_message err,
                          resp_type := err_type err,
                          resp_statusCode := Some (err_statusCode err)\<rparr>
         in if isDevelopment \<and> truthy (err_details err)
            then r\<lparr>resp_details := Some (err_details err)\<rparr>
            else r)
      else if err_code err = JStr ''ECONNREFUSED'' then
        response\<lparr>resp_message := JStr ''Service temporarily unavailable'',
                 resp_type := JStr (NETWORK ErrorTypes),
                 resp_statusCode := Some (JNum (Finite 503))\<rparr>
      else if err_code err = JStr ''ETIMEDOUT'' \<or> err_name err = JStr ''TimeoutError'' then
        response\<lparr>resp_message := JStr ''Request timeout'',
                 resp_type := JStr (TIMEOUT ErrorTypes),
                 resp_statusCode := Some (JNum (Finite 504))\<rparr>
      else if err_code err = JStr ''ENOENT'' then
        response\<lparr>resp_message := JStr ''Resource not found'',
                 resp_type := JStr (NOT_FOUND ErrorTypes),
                 resp_statusCode := Some (JNum (Finite 404))\<rparr>
      else
        (let r = (if isDevelopment \<or> verbose
                  then response\<lparr>resp_message := err_message err,
                                resp_stack := Some (err_stack err),
                                resp_details := Some (JObj [(''name'', err_name err),
                                                            (''code'', err_code err)])\<rparr>
                  else response)
         in r\<lparr>resp_statusCode := Some (js_or (err_statusCode err) (JNum (Finite 500)))\<rparr>))"



text \<open>A \<open>ValidationError\<close> as the constructor of the validation module builds it.\<close>

definition failure_of :: "validation_error \<Rightarrow> string \<Rightarrow> failure" where
  "failure_of e stack =
     \<lparr>err_name = JStr ''ValidationError'',
      err_message = JStr (ve_message e),
      err_userMessage = JStr (ve_userMessage e),
      err_code = JUndefined,
      err_statusCode = JUndefined,
      err_stack = JStr stack,
      err_type = JUndefined,
      err_details = JUndefined,
      instanceof_AppError = False\<rparr>"

section \<open>Configuration (the config module)\<close>

subsection \<open>The schema and single values\<close>

datatype ctype = TNumber | TBoolean | TString | TArray

text \<open>A configuration value after validation: a number, a boolean, a string or an array of strings.\<close>

datatype cfgval = CNum jsnum | CBool bool | CStr string | CArr "string list"

fun cfg_truthy :: "cfgval \<Rightarrow> bool" where
  "cfg_truthy (CNum n) = (n \<noteq> NaN \<and> n \<noteq> Finite 0)"
| "cfg_truthy (CBool b) = b"
| "cfg_truthy (CStr s) = (s \<noteq> [])"
| "cfg_truthy (CArr xs) = True"

text \<open>\<open>a < b\<close> on numbers: false whenever an operand is NaN.\<close>

fun js_less :: "jsnum \<Rightarrow> jsnum \<Rightarrow> bool" where
  "js_less NaN b = False"
| "js_less a NaN = False"
| "js_less PosInfinity b = False"
| "js_less a NegInfinity = False"
| "js_less NegInfinity b = True"
| "js_less a PosInfinity = True"
| "js_less (Finite x) (Finite y) = (x < y)"

text \<open>
  One entry of \<open>CONFIG_SCHEMA\<close>. An absent key (\<open>min\<close>, \<open>max\<close>, \<open>minLength\<close>,
  \<open>pattern\<close>, \<open>enum\<close>, \<open>separator\<close>) is \<open>None\<close>; an absent \<open>optional\<close> or
  \<open>required\<close> is false. The \<open>description\<close> strings are left out.
\<close>

record schema_entry =
  sch_type :: ctype
  sch_default :: cfgval
  sch_min :: "rat option"
  sch_max :: "rat option"
  sch_minLength :: "nat option"
  sch_pattern :: "rx option"
  sch_enum :: "string list option"
  sch_separator :: "string option"
  sch_optional :: bool
  sch_required :: bool

definition entry :: "ctype \<Rightarrow> cfgval \<Rightarrow> schema_entry" where
  "entry t d =
     \<lparr>sch_type = t, sch_default = d, sch_min = None, sch_max = None, sch_minLength = None,
      sch_pattern = None, sch_enum = None, sch_separator = None, sch_optional = False,
      sch_required = False\<rparr>"

definition url_or_empty :: rx where
  "url_or_empty = Or (cats [Lit ''http'', Opt (Chr CHR ''s''), Lit ''://'', Plus Dot]) Empty"

text \<open>
  \<open>CONFIG_SCHEMA\<close> in the order of its keys. \<open>production_at_import\<close> is
  \<open>process.env.NODE_ENV === 'production'\<close> at the moment the module is evaluated: it
  fixes \<open>SESSION_SECRET.required\<close>.
\<close>

definition CONFIG_SCHEMA :: "bool \<Rightarrow> (string \<times> schema_entry) list" where
  "CONFIG_SCHEMA production_at_import =
     [(''PORT'', (entry TNumber (CNum (Finite 9005)))\<lparr>sch_min := Some 1024, sch_max := Some 65535\<rparr>),
      (''HOST'', (entry TString (CStr ''localhost''))
         \<lparr>sch_pattern := Some (Or (Lit ''localhost'') (Or (Lit ''127.0.0.1'') (Or (Lit ''0.0.0.0'')
             (Plus (Cls [(97, 122), (65, 90), (48, 57), (95, 95), (46, 46), (45, 45)])))))\<rparr>),
      (''VERBOSE'', entry TBoolean (CBool False)),
      (''GOOGLE_API_KEY'', (entry TString (CStr []))\<lparr>sch_optional := True\<rparr>),
      (''GOOGLE_API_CS'', (entry TString (CStr []))\<lparr>sch_optional := True\<rparr>),
      (''SELENIUM_GRID_URL'', (entry TString (CStr []))
         \<lparr>sch_pattern := Some url_or_empty, sch_optional := True\<rparr>),
      (''HTTP_PROXY'', (entry TString (CStr []))
         \<lparr>sch_pattern := Some url_or_empty, sch_optional := True\<rparr>),
      (''USER_AGENT'', entry TString
         (CStr ''Mozilla/5.0 (X11; Ubuntu; Linux x86_64; rv:102.0) Gecko/20100101 Firefox/102.0'')),
      (''SESSION_SECRET'', (entry TString (CStr []))
         \<lparr>sch_minLength := Some 32, sch_required := production_at_import\<rparr>),
      (''ENABLE_CORS'', entry TBoolean (CBool False)),
      (''CORS_ORIGINS'', (entry TArray (CArr [''http://localhost:3000'']))\<lparr>sch_separator := Some '',''\<rparr>),
      (''RATE_LIMIT_MAX'', (entry TNumber (CNum (Finite 100)))\<lparr>sch_min := Some 1, sch_max := Some 10000\<rparr>),
      (''RATE_LIMIT_WINDOW'', (entry TNumber (CNum (Finite 15)))\<lparr>sch_min := Some 1, sch_max := Some 1440\<rparr>),
      (''DETECTION_LEVEL'', (entry TString (CStr ''high''))
         \<lparr>sch_enum := Some [''extreme'', ''high'', ''normal'', ''low'']\<rparr>),
      (''MAX_FAST_WORKERS'', (entry TNumber (CNum (Finite 15)))\<lparr>sch_min := Some 1, sch_max := Some 50\<rparr>),
      (''MAX_SLOW_WORKERS'', (entry TNumber (CNum (Finite 8)))\<lparr>sch_min := Some 1, sch_max := Some 20\<rparr>),
      (''MAX_SPECIAL_WORKERS'', (entry TNumber (CNum (Finite 5)))\<lparr>sch_min := Some 1, sch_max := Some 20\<rparr>),
      (''REQUEST_TIMEOUT'', (entry TNumber (CNum (Finite 5)))\<lparr>sch_min := Some 1, sch_max := Some 60\<rparr>),
      (''ENABLE_FILE_LOGGING'', entry TBoolean (CBool True)),
      (''LOG_DIR'', entry TString (CStr ''./logs'')),
      (''LOG_LEVEL'', (entry TString (CStr ''info''))
         \<lparr>sch_enum := Some [''error'', ''warn'', ''info'', ''debug'']\<rparr>),
      (''SITES_DATA_PATH'', entry TString (CStr ''./data/sites.json'')),
      (''NAMES_DATA_PATH'', entry TString (CStr ''./data/names.json'')),
      (''LANGUAGES_DATA_PATH'', entry TString (CStr ''./data/languages.json'')),
      (''DICT_DATA_PATH'', entry TString (CStr ''./data/dict.json'')),
      (''COUNTRIES_DATA_PATH'', entry TString (CStr ''./data/countries.json''))]"

text \<open>
  What the module takes from the platform: \<open>Number(s)\<close>, the conversion of a number in
  a template literal, \<open>path.resolve\<close>, \<open>fs.existsSync\<close>, whether \<open>fs.mkdirSync\<close>
  succeeds on a path, and the 64 hexadecimal digits drawn by
  \<open>crypto.randomBytes(32).toString('hex')\<close>.
\<close>

record platform =
  to_number :: "string \<Rightarrow> jsnum"
  num_string :: "jsnum \<Rightarrow> string"
  path_resolve :: "string \<Rightarrow> string"
  existsSync :: "string \<Rightarrow> bool"
  mkdirSync_ok :: "string \<Rightarrow> bool"
  randomBytes_hex :: string

record validation_result =
  vr_valid :: bool
  vr_errors :: "string list"
  vr_value :: cfgval

definition result_of :: "string list \<Rightarrow> cfgval \<Rightarrow> validation_result" where
  "result_of errors v = \<lparr>vr_valid = (length errors = 0), vr_errors = errors, vr_value = v\<rparr>"

text \<open>The checks of the \<open>'number'\<close> case, in source order: not a number, else min, then max.\<close>

definition number_errors :: "platform \<Rightarrow> string \<Rightarrow> string \<Rightarrow> schema_entry \<Rightarrow> string list" where
  "number_errors pf key v schema =
     (let num = to_number pf v in
      if num = NaN then [key @ '' must be a number, got: '' @ v]
      else
        (case sch_min schema of
           Some m \<Rightarrow> if js_less num (Finite m)
                     then [key @ '' must be >= '' @ num_string pf (Finite m) @ '', got: ''
                             @ num_string pf num]
                     else []
         | None \<Rightarrow> [])
        @ (case sch_max schema of
             Some m \<Rightarrow> if js_less (Finite m) num
                       then [key @ '' must be <= '' @ num_string pf (Finite m) @ '', got: ''
                               @ num_string pf num]
                       else []
           | None \<Rightarrow> []))"

text \<open>The checks of the \<open>'string'\<close> case, in source order: minLength, pattern, enum.\<close>

definition string_errors :: "string \<Rightarrow> string \<Rightarrow> schema_entry \<Rightarrow> string list" where
  "string_errors key v schema =
     (case sch_minLength schema of
        Some n \<Rightarrow> if n \<noteq> 0 \<and> length v < n
                  then [key @ '' must be at least '' @ show_nat n @ '' characters, got: ''
                          @ show_nat (length v)]
                  else []
      | None \<Rightarrow> [])
     @ (case sch_pattern schema of
          Some p \<Rightarrow> if \<not> rx_match p v then [key @ '' has invalid format''] else []
        | None \<Rightarrow> [])
     @ (case sch_enum schema of
          Some allowed \<Rightarrow> if v \<notin> set allowed
                          then [key @ '' must be one of: '' @ join '', '' allowed @ '', got: '' @ v]
                          else []
        | None \<Rightarrow> [])"

text \<open>
  \<open>validateValue(key, value, schema)\<close>. The value comes from \<open>process.env[key]\<close>: it is
  undefined (\<open>None\<close>) or a string, so the non-string branches of the boolean and array
  cases do not arise.
\<close>

definition validateValue ::
  "platform \<Rightarrow> string \<Rightarrow> string option \<Rightarrow> schema_entry \<Rightarrow> validation_result" where
  "validateValue pf key value schema =
     (if sch_required schema \<and> (value = None \<or> value = Some []) then
        \<lparr>vr_valid = False, vr_errors = [key @ '' is required but not set''],
         vr_value = sch_default schema\<rparr>
      else case value of
        None \<Rightarrow> \<lparr>vr_valid = True, vr_errors = [], vr_value = sch_default schema\<rparr>
      | Some v \<Rightarrow>
          (if v = [] then \<lparr>vr_valid = True, vr_errors = [], vr_value = sch_default schema\<rparr>
           else case sch_type schema of
             TNumber \<Rightarrow>
               result_of (number_errors pf key v schema)
                 (if to_number pf v = NaN then CStr v else CNum (to_number pf v))
           | TBoolean \<Rightarrow> result_of [] (CBool (toLowerCase v = ''true'' \<or> v = ''1''))
           | TString \<Rightarrow> result_of (string_errors key v schema) (CStr v)
           | TArray \<Rightarrow>
               result_of []
                 (CArr (filter (\<lambda>x. x \<noteq> [])
                          (map trim
                             (str_split (case sch_separator schema of
                                           Some sep \<Rightarrow> if sep \<noteq> [] then sep else '',''
                                         | None \<Rightarrow> '','') v))))))"

subsection \<open>Loading\<close>

datatype load_error = ConfigValidationError "string list" | TypeError

text \<open>\<open>config[key] = v\<close> on an object whose keys are kept in insertion order.\<close>

fun assign :: "string \<Rightarrow> 'v \<Rightarrow> (string \<times> 'v) list \<Rightarrow> (string \<times> 'v) list" where
  "assign key v [] = [(key, v)]"
| "assign key v ((k, old) # rest) =
     (if k = key then (k, v) # rest else (k, old) # assign key v rest)"

text \<open>
  The loop over \<open>Object.entries(CONFIG_SCHEMA)\<close>: every field is validated, the errors of
  the invalid ones are collected in order, and every field gets a value.
\<close>

fun load_fields ::
  "platform \<Rightarrow> (string \<rightharpoonup> string) \<Rightarrow> string list \<Rightarrow> (string \<times> cfgval) list
     \<Rightarrow> (string \<times> schema_entry) list \<Rightarrow> string list \<times> (string \<times> cfgval) list" where
  "load_fields pf env errors config [] = (errors, config)"
| "load_fields pf env errors config ((key, schema) # rest) =
     (let result = validateValue pf key (env key) schema in
      load_fields pf env
        (if \<not> vr_valid result then errors @ vr_errors result else errors)
        (assign key (vr_value result) config)
        rest)"

definition dataPaths :: "string list" where
  "dataPaths = [''SITES_DATA_PATH'', ''NAMES_DATA_PATH'', ''LANGUAGES_DATA_PATH'',
                ''DICT_DATA_PATH'', ''COUNTRIES_DATA_PATH'']"

text \<open>\<open>path.resolve(config[key])\<close> throws a \<open>TypeError\<close> on anything but a string.\<close>

definition resolved :: "platform \<Rightarrow> (string \<times> cfgval) list \<Rightarrow> string \<Rightarrow> load_error + string" where
  "resolved pf config key =
     (case map_of config key of
        Some (CStr p) \<Rightarrow> Inr (path_resolve pf p)
      | _ \<Rightarrow> Inl TypeError)"

fun missing_files ::
  "platform \<Rightarrow> (string \<times> cfgval) list \<Rightarrow> string list \<Rightarrow> load_error + string list" where
  "missing_files pf config [] = Inr []"
| "missing_files pf config (pathKey # rest) =
     (case resolved pf config pathKey of
        Inl e \<Rightarrow> Inl e
      | Inr filePath \<Rightarrow>
          (case missing_files pf config rest of
             Inl e \<Rightarrow> Inl e
           | Inr others \<Rightarrow>
               Inr ((if \<not> existsSync pf filePath then [pathKey @ '': '' @ filePath] else [])
                      @ others)))"

definition field_truthy :: "(string \<times> cfgval) list \<Rightarrow> string \<Rightarrow> bool" where
  "field_truthy config key = (case map_of config key of Some v \<Rightarrow> cfg_truthy v | None \<Rightarrow> False)"

definition secret_hint :: string where
  "secret_hint = ''Generate one with: node -e '' @ [CHR 0x22]
      @ ''console.log(require('' @ [CHR 0x27] @ ''crypto'' @ [CHR 0x27]
      @ '').randomBytes(32).toString('' @ [CHR 0x27] @ ''hex'' @ [CHR 0x27] @ ''))'' @ [CHR 0x22]"

text \<open>
  The log directory step: when file logging is on and the directory is missing,
  \<open>mkdirSync\<close> is tried and its failure is rethrown as a configuration error.
\<close>

definition ensure_log_dir :: "platform \<Rightarrow> (string \<times> cfgval) list \<Rightarrow> load_error option" where
  "ensure_log_dir pf config =
     (if field_truthy config ''ENABLE_FILE_LOGGING'' then
        (case resolved pf config ''LOG_DIR'' of
           Inl e \<Rightarrow> Some e
         | Inr logDir \<Rightarrow>
             if \<not> existsSync pf logDir \<and> \<not> mkdirSync_ok pf logDir
             then Some (ConfigValidationError [''Cannot create log directory: '' @ logDir])
             else None)
      else None)"

text \<open>
  \<open>loadConfig\<close>. \<open>env\<close> is \<open>process.env\<close> once \<open>dotenv\<close> has run, and \<open>production\<close>
  is \<open>process.env.NODE_ENV === 'production'\<close> read from it. A thrown error is \<open>Inl\<close>;
  the returned object is the one handed to \<open>Object.freeze\<close>. Console warnings and the
  directory that \<open>mkdirSync\<close> creates are not part of the result.
\<close>

definition loadConfig ::
  "platform \<Rightarrow> bool \<Rightarrow> (string \<rightharpoonup> string) \<Rightarrow> load_error + (string \<times> cfgval) list" where
  "loadConfig pf production_at_import env =
     (let production = (env ''NODE_ENV'' = Some ''production'');
          (errors, config) = load_fields pf env [] [] (CONFIG_SCHEMA production_at_import)
      in
      if length errors > 0 then Inl (ConfigValidationError errors)
      else case missing_files pf config dataPaths of
        Inl e \<Rightarrow> Inl e
      | Inr missingFiles \<Rightarrow>
          if length missingFiles > 0 then
            Inl (ConfigValidationError (''Required data files not found:'' # missingFiles))
          else case ensure_log_dir pf config of
            Some e \<Rightarrow> Inl e
          | None \<Rightarrow>
              if production \<and> \<not> field_truthy config ''SESSION_SECRET'' then
                Inl (ConfigValidationError
                       [''SESSION_SECRET is required in production'', secret_hint])
              else if \<not> field_truthy config ''SESSION_SECRET'' then
                Inr (assign ''SESSION_SECRET'' (CStr (randomBytes_hex pf)) config)
              else Inr config)"

subsection \<open>Rule order, stated as tables\<close>









subsection \<open>A concrete platform\<close>

text \<open>
  One concrete platform for evaluating the model: unsigned decimal numerals are numbers,
  paths resolve under \<open>/srv/app/\<close>, every file exists, and the random digits are fixed.
\<close>

definition decimal_value :: "string \<Rightarrow> nat" where
  "decimal_value s = foldl (\<lambda>acc c. 10 * acc + (cu c - 48)) 0 s"

definition sample_platform :: platform where
  "sample_platform =
     \<lparr>to_number = (\<lambda>s. if s \<noteq> [] \<and> list_all (in_range 48 57) s
                        then Finite (of_nat (decimal_value s)) else NaN),
      num_string = (\<lambda>n. case n of Finite r \<Rightarrow> show_nat (nat \<lfloor>r\<rfloor>) | _ \<Rightarrow> ''NaN''),
      path_resolve = (\<lambda>p. ''/srv/app/'' @ p),
      existsSync = (\<lambda>p. True),
      mkdirSync_ok = (\<lambda>p. True),
      randomBytes_hex = ''0123456789abcdef0123456789abcdef0123456789abcdef0123456789abcdef''\<rparr>"



subsection \<open>What a load depends on\<close>

text \<open>The validated or default value of one schema field for a given environment.\<close>

definition field_value :: "platform \<Rightarrow> (string \<rightharpoonup> string) \<Rightarrow> bool \<Rightarrow> string \<Rightarrow> cfgval option" where
  "field_value pf env production_at_import key =
     (case map_of (CONFIG_SCHEMA production_at_import) key of
        Some schema \<Rightarrow> Some (vr_value (validateValue pf key (env key) schema))
      | None \<Rightarrow> None)"

text \<open>Every field of the schema passes its own validation.\<close>

definition fields_valid :: "platform \<Rightarrow> (string \<rightharpoonup> string) \<Rightarrow> bool \<Rightarrow> bool" where
  "fields_valid pf env production_at_import =
     list_all (\<lambda>(key, schema). vr_valid (validateValue pf key (env key) schema))
       (CONFIG_SCHEMA production_at_import)"

text \<open>The five data files exist at their resolved paths.\<close>

definition data_files_exist :: "platform \<Rightarrow> (string \<rightharpoonup> string) \<Rightarrow> bool \<Rightarrow> bool" where
  "data_files_exist pf env production_at_import =
     list_all (\<lambda>key. case field_value pf env production_at_import key of
                        Some (CStr p) \<Rightarrow> existsSync pf (path_resolve pf p)
                      | _ \<Rightarrow> False)
       dataPaths"

text \<open>File logging is off, or the log directory exists, or it can be created.\<close>

definition log_dir_ready :: "platform \<Rightarrow> (string \<rightharpoonup> string) \<Rightarrow> bool \<Rightarrow> bool" where
  "log_dir_ready pf env production_at_import =
     (case field_value pf env production_at_import ''ENABLE_FILE_LOGGING'' of
        Some (CBool True) \<Rightarrow>
          (case field_value pf env production_at_import ''LOG_DIR'' of
             Some (CStr d) \<Rightarrow>
               existsSync pf (path_resolve pf d) \<or> mkdirSync_ok pf (path_resolve pf d)
           | _ \<Rightarrow> False)
      | _ \<Rightarrow> True)"

text \<open>The values of all schema fields, in schema order.\<close>

definition validated_fields ::
  "platform \<Rightarrow> (string \<rightharpoonup> string) \<Rightarrow> bool \<Rightarrow> (string \<times> cfgval) list" where
  "validated_fields pf env production_at_import =
     map (\<lambda>(key, schema). (key, vr_value (validateValue pf key (env key) schema)))
       (CONFIG_SCHEMA production_at_import)"

text \<open>
  Three environments: nothing set; only \<open>NODE_ENV=production\<close>; only an unparsable
  \<open>PORT\<close>.
\<close>

definition empty_env :: "string \<rightharpoonup> string" where
  "empty_env = Map.empty"

definition production_env :: "string \<rightharpoonup> string" where
  "production_env = [''NODE_ENV'' \<mapsto> ''production'']"

definition bad_port_env :: "string \<rightharpoonup> string" where
  "bad_port_env = [''PORT'' \<mapsto> ''abc'']"

subsection \<open>The module's state: the frozen object and its arrays\<close>

text \<open>
  The object that \<open>loadConfig\<close> returns lives in the heap. A property of the object
  holds a primitive or a reference to an array object; \<open>Object.freeze\<close> marks the object
  itself as frozen and leaves the arrays its properties refer to as they are. The module
  variable \<open>config\<close> is undefined (\<open>None\<close>) until \<open>initConfig\<close> has stored the object.
\<close>

datatype hval = HNum jsnum | HBool bool | HStr string | HArr nat

record module_state =
  heap_arrays :: "nat \<Rightarrow> string list option"
  config_var :: "(string \<times> hval) list option"
  config_frozen :: bool

datatype js_error = NotInitialized | ReadOnlyTypeError

text \<open>The state before \<open>initConfig\<close>: \<open>let config;\<close>.\<close>

definition initial_state :: module_state where
  "initial_state = \<lparr>heap_arrays = (\<lambda>a. None), config_var = None, config_frozen = False\<rparr>"

text \<open>
  Placing the loaded values in the heap: every array value becomes an array object of its
  own at the next free address, and the property holds the reference.
\<close>

fun place_fields ::
  "nat \<Rightarrow> (string \<times> cfgval) list \<Rightarrow> (nat \<Rightarrow> string list option)
     \<Rightarrow> (string \<times> hval) list \<times> (nat \<Rightarrow> string list option)" where
  "place_fields next [] heap = ([], heap)"
| "place_fields next ((key, CArr xs) # rest) heap =
     (let (props, heap') = place_fields (next + 1) rest (heap(next \<mapsto> xs))
      in ((key, HArr next) # props, heap'))"
| "place_fields next ((key, CNum n) # rest) heap =
     (let (props, heap') = place_fields next rest heap in ((key, HNum n) # props, heap'))"
| "place_fields next ((key, CBool b) # rest) heap =
     (let (props, heap') = place_fields next rest heap in ((key, HBool b) # props, heap'))"
| "place_fields next ((key, CStr s) # rest) heap =
     (let (props, heap') = place_fields next rest heap in ((key, HStr s) # props, heap'))"

text \<open>\<open>config = Object.freeze(...)\<close>: the object is stored and frozen, shallowly.\<close>

definition freeze_snapshot :: "(string \<times> cfgval) list \<Rightarrow> module_state" where
  "freeze_snapshot snapshot =
     (let (props, heap) = place_fields 0 snapshot (\<lambda>a. None)
      in \<lparr>heap_arrays = heap, config_var = Some props, config_frozen = True\<rparr>)"

text \<open>
  \<open>initConfig\<close>: on a configuration error the process prints the message and exits
  (\<open>Inl\<close>); otherwise the module holds the frozen object.
\<close>

definition initConfig ::
  "platform \<Rightarrow> bool \<Rightarrow> (string \<rightharpoonup> string) \<Rightarrow> load_error + module_state" where
  "initConfig pf production_at_import env =
     (case loadConfig pf production_at_import env of
        Inl e \<Rightarrow> Inl e
      | Inr snapshot \<Rightarrow> Inr (freeze_snapshot snapshot))"

text \<open>\<open>get(key)\<close> and \<open>getAll()\<close>: both throw while \<open>config\<close> is undefined.\<close>

definition get :: "module_state \<Rightarrow> string \<Rightarrow> js_error + hval option" where
  "get st key =
     (case config_var st of
        None \<Rightarrow> Inl NotInitialized
      | Some props \<Rightarrow> Inr (map_of props key))"

definition getAll :: "module_state \<Rightarrow> js_error + (string \<times> hval) list" where
  "getAll st =
     (case config_var st of
        None \<Rightarrow> Inl NotInitialized
      | Some props \<Rightarrow> Inr props)"

text \<open>What a caller sees in a value it has read: the primitive, or the array's elements.\<close>

fun contents :: "module_state \<Rightarrow> hval \<Rightarrow> cfgval option" where
  "contents st (HNum n) = Some (CNum n)"
| "contents st (HBool b) = Some (CBool b)"
| "contents st (HStr s) = Some (CStr s)"
| "contents st (HArr a) = map_option CArr (heap_arrays st a)"

definition observe :: "module_state \<Rightarrow> string \<Rightarrow> cfgval option" where
  "observe st key =
     (case get st key of
        Inr (Some v) \<Rightarrow> contents st v
      | _ \<Rightarrow> None)"

text \<open>
  What a caller holding the result of \<open>getAll()\<close> or \<open>get(key)\<close> can attempt. Modules
  are strict code: an assignment to, or a deletion of, a property of a frozen object
  throws a \<open>TypeError\<close> and changes nothing. An array reached through a property is an
  ordinary, extensible array: \<open>push\<close> appends to it in place.
\<close>

definition assign_property :: "module_state \<Rightarrow> string \<Rightarrow> hval \<Rightarrow> js_error + module_state" where
  "assign_property st key v =
     (case config_var st of
        None \<Rightarrow> Inl NotInitialized
      | Some props \<Rightarrow>
          if config_frozen st then Inl ReadOnlyTypeError
          else Inr (st\<lparr>config_var := Some (assign key v props)\<rparr>))"

definition delete_property :: "module_state \<Rightarrow> string \<Rightarrow> js_error + module_state" where
  "delete_property st key =
     (case config_var st of
        None \<Rightarrow> Inl NotInitialized
      | Some props \<Rightarrow>
          if config_frozen st \<and> key \<in> set (map fst props) then Inl ReadOnlyTypeError
          else Inr (st\<lparr>config_var := Some (filter (\<lambda>(k, v). k \<noteq> key) props)\<rparr>))"

definition array_push :: "module_state \<Rightarrow> nat \<Rightarrow> string \<Rightarrow> module_state" where
  "array_push st a x =
     (case heap_arrays st a of
        None \<Rightarrow> st
      | Some xs \<Rightarrow> st\<lparr>heap_arrays := (heap_arrays st)(a \<mapsto> xs @ [x])\<rparr>)"

subsection \<open>Secret projection\<close>

definition maskSecret :: "string \<Rightarrow> string" where
  "maskSecret secret =
     (if secret = [] \<or> length secret \<le> 10 then ''***''
      else take 10 secret @ replicate (length secret - 10) CHR ''*'')"

text \<open>\<open>maskUrl\<close>, with the platform's \<open>URL\<close> constructor as a parameter.\<close>

definition masked_form :: "parsed_url \<Rightarrow> string" where
  "masked_form parsed =
     url_protocol parsed @ ''//***.***@'' @ url_host parsed @ url_pathname parsed"

definition maskUrl :: "(string \<Rightarrow> parsed_url option) \<Rightarrow> string \<Rightarrow> string" where
  "maskUrl URL url =
     (if url = [] then []
      else case URL url of
        None \<Rightarrow> ''***''
      | Some parsed \<Rightarrow>
          if url_username parsed \<noteq> [] \<or> url_password parsed \<noteq> []
          then masked_form parsed
          else url)"

fun hval_truthy :: "hval \<Rightarrow> bool" where
  "hval_truthy (HNum n) = (n \<noteq> NaN \<and> n \<noteq> Finite 0)"
| "hval_truthy (HBool b) = b"
| "hval_truthy (HStr s) = (s \<noteq> [])"
| "hval_truthy (HArr a) = True"

text \<open>
  \<open>sanitized.KEY = f(sanitized.KEY)\<close> under \<open>if (sanitized.KEY)\<close>. \<open>GOOGLE_API_KEY\<close> and
  \<open>HTTP_PROXY\<close> are string fields of the schema (\<open>loadConfig\<close> stores \<open>String(value)\<close>
  or the default), so \<open>maskSecret\<close> and \<open>maskUrl\<close> are applied to strings; a property of
  another type is kept as it is here.
\<close>

fun mask_value :: "(string \<Rightarrow> string) \<Rightarrow> hval \<Rightarrow> hval" where
  "mask_value f (HStr s) = HStr (f s)"
| "mask_value f v = v"

definition mask_property ::
  "string \<Rightarrow> (hval \<Rightarrow> hval) \<Rightarrow> (string \<times> hval) list \<Rightarrow> (string \<times> hval) list" where
  "mask_property key f props =
     (case map_of props key of
        Some v \<Rightarrow> if hval_truthy v then assign key (f v) props else props
      | None \<Rightarrow> props)"

text \<open>The projection on the properties of a copy \<open>{ ...config }\<close>.\<close>

definition project :: "(string \<Rightarrow> parsed_url option) \<Rightarrow> (string \<times> hval) list \<Rightarrow> (string \<times> hval) list" where
  "project URL props =
     mask_property ''HTTP_PROXY'' (mask_value (maskUrl URL))
       (mask_property ''SESSION_SECRET'' (\<lambda>v. HStr ''***HIDDEN***'')
         (mask_property ''GOOGLE_API_KEY'' (mask_value maskSecret) props))"

definition getSanitized ::
  "(string \<Rightarrow> parsed_url option) \<Rightarrow> module_state \<Rightarrow> js_error + (string \<times> hval) list" where
  "getSanitized URL st =
     (case config_var st of
        None \<Rightarrow> Inl NotInitialized
      | Some props \<Rightarrow> Inr (project URL props))"





text \<open>The module state after \<open>initConfig\<close> with nothing set in the environment.\<close>

definition default_state :: module_state where
  "default_state =
     (case initConfig sample_platform False empty_env of
        Inr st \<Rightarrow> st
      | Inl e \<Rightarrow> initial_state)"

section \<open>Verified properties\<close>

subsection \<open>Facts about trimming and case\<close>

lemma lower_space: "is_js_space c \<Longrightarrow> lower_char c = c"
  by (auto simp: is_js_space_def lower_char_def in_range_def)

lemma list_all_takeWhile: "list_all P (takeWhile P xs)"
  by (induction xs) auto

lemma trim_decomp:
  "\<exists>a b. s = a @ trim s @ b \<and> list_all is_js_space a \<and> list_all is_js_space b"
proof -
  let ?t = "dropWhile is_js_space s"
  let ?e = "takeWhile is_js_space (rev ?t)"
  have 1: "s = takeWhile is_js_space s @ ?t" by simp
  have "rev (?e @ dropWhile is_js_space (rev ?t)) = ?t"
    by (simp only: takeWhile_dropWhile_id rev_rev_ident)
  then have 2: "?t = trim s @ rev ?e"
    by (simp only: rev_append trim_def)
  have 3: "list_all is_js_space (takeWhile is_js_space s)"
    by (rule list_all_takeWhile)
  have 4: "list_all is_js_space (rev ?e)"
    by (simp only: list_all_rev list_all_takeWhile)
  from 1 2 have "s = takeWhile is_js_space s @ trim s @ rev ?e"
    by metis
  with 3 4 show ?thesis by blast
qed

lemma dropWhile_all_append:
  "list_all P a \<Longrightarrow> dropWhile P (a @ w) = dropWhile P w"
  by (induction a) auto

lemma trim_sandwich:
  assumes "w \<noteq> []" "\<not> is_js_space (hd w)" "\<not> is_js_space (last w)"
    and "list_all is_js_space a" "list_all is_js_space b"
  shows "trim (a @ w @ b) = w"
proof -
  have 1: "dropWhile is_js_space (a @ w @ b) = w @ b"
    using assms by (cases w) (auto simp: dropWhile_all_append)
  have 2: "dropWhile is_js_space (rev (w @ b)) = rev w"
  proof -
    have "list_all is_js_space (rev b)" using assms by simp
    then have "dropWhile is_js_space (rev b @ rev w) = dropWhile is_js_space (rev w)"
      by (rule dropWhile_all_append)
    moreover have "dropWhile is_js_space (rev w) = rev w"
      using assms by (cases "rev w") (auto simp: last_rev hd_rev)
    ultimately show ?thesis by simp
  qed
  show ?thesis by (simp only: trim_def 1 2 rev_rev_ident)
qed

lemma lower_char_eq_iff:
  assumes "in_range 97 122 d"
  shows "lower_char c = d \<longleftrightarrow> (c = d \<or> c = upper_char d)"
proof
  assume L: "lower_char c = d"
  show "c = d \<or> c = upper_char d"
  proof (cases "in_range 65 90 c \<or> (in_range 192 222 c \<and> cu c \<noteq> 215)")
    case True
    then have d: "d = char_of (cu c + 32)" using L by (simp add: lower_char_def)
    from True have "cu c + 32 < 256" by (auto simp: in_range_def)
    then have "cu d = cu c + 32" using d by (simp add: cu_def)
    then have "char_of (cu d - 32) = c" by (simp add: cu_def)
    then show ?thesis using assms by (simp add: upper_char_def)
  next
    case False
    then have "lower_char c = c" by (auto simp: lower_char_def)
    then show ?thesis using L by simp
  qed
next
  assume "c = d \<or> c = upper_char d"
  then show "lower_char c = d"
  proof
    assume "c = d"
    then show ?thesis using assms by (auto simp: lower_char_def in_range_def)
  next
    assume c: "c = upper_char d"
    then have c': "c = char_of (cu d - 32)" using assms by (simp add: upper_char_def)
    have "cu d - 32 < 256" using assms by (auto simp: in_range_def)
    then have cc: "cu c = cu d - 32" using c' by (simp add: cu_def)
    then have "in_range 65 90 c" using assms by (auto simp: in_range_def)
    moreover have "cu c + 32 = cu d" using cc assms by (auto simp: in_range_def)
    ultimately show ?thesis by (simp add: lower_char_def cu_def)
  qed
qed

lemma toLowerCase_eq_iff:
  "list_all (in_range 97 122) m \<Longrightarrow> toLowerCase w = m \<longleftrightarrow> differs_only_in_case w m"
proof (induction w arbitrary: m)
  case Nil
  then show ?case by (auto simp: toLowerCase_def differs_only_in_case_def)
next
  case (Cons c w)
  show ?case
  proof (cases m)
    case Nil
    then show ?thesis by (simp add: toLowerCase_def differs_only_in_case_def)
  next
    case (Cons d m')
    with Cons.prems have d: "in_range 97 122 d" and m': "list_all (in_range 97 122) m'"
      by simp_all
    from Cons.IH[OF m'] lower_char_eq_iff[OF d, of c] Cons show ?thesis
      by (simp add: toLowerCase_def differs_only_in_case_def)
  qed
qed

lemma validModes_lower: "m \<in> set validModes \<Longrightarrow> list_all (in_range 97 122) m \<and> m \<noteq> []"
  by (auto simp: validModes_def in_range_def cu_def)

lemma lower_ends:
  assumes "list_all (in_range 97 122) m" "m \<noteq> []" "toLowerCase w = m"
  shows "w \<noteq> [] \<and> \<not> is_js_space (hd w) \<and> \<not> is_js_space (last w)"
proof -
  from assms have w: "w \<noteq> []" by (auto simp: toLowerCase_def)
  have ns: "\<not> is_js_space c" if "lower_char c \<in> set m" for c
  proof
    assume sp: "is_js_space c"
    then have "c \<in> set m" using that by (simp add: lower_space)
    then have "in_range 97 122 c" using assms(1) by (simp add: list_all_iff)
    with sp show False by (auto simp: is_js_space_def in_range_def)
  qed
  have "lower_char (hd w) = hd m" using w assms(3) by (auto simp: toLowerCase_def hd_map)
  moreover have "lower_char (last w) = last m" using w assms(3) by (auto simp: toLowerCase_def last_map)
  ultimately show ?thesis using w ns assms(2) by (metis hd_in_set last_in_set)
qed

lemma join_validModes: "join '', '' validModes = ''fast, slow, special''"
  by (simp add: validModes_def)

subsection \<open>C10: the detection mode\<close>

text \<open>
  Claim C10. \<open>validateMode\<close> never fails on absent input: every falsy input (undefined,
  null, the empty string, and also false, 0 and NaN) yields the default \<open>fast\<close>. A string
  is trimmed and lower-cased before the membership test: an input that differs from
  \<open>fast\<close>, \<open>slow\<close> or \<open>special\<close> only in case and in surrounding whitespace is
  accepted and returned in lower case, and every other non-empty string is rejected with
  the validation failure that lists the three modes.
\<close>

theorem validateMode_default_and_enum:
  "(\<not> truthy v \<longrightarrow> validateMode v = Inr ''fast'')
   \<and> validateMode JUndefined = Inr ''fast''
   \<and> validateMode JNull = Inr ''fast''
   \<and> validateMode (JStr []) = Inr ''fast''
   \<and> (list_all is_js_space a \<and> list_all is_js_space b \<and> m \<in> set validModes
        \<and> differs_only_in_case w m
      \<longrightarrow> validateMode (JStr (a @ w @ b)) = Inr m)
   \<and> (s \<noteq> [] \<and> \<not> (\<exists>a w b m. s = a @ w @ b \<and> list_all is_js_space a \<and> list_all is_js_space b
                        \<and> m \<in> set validModes \<and> differs_only_in_case w m)
      \<longrightarrow> validateMode (JStr s)
            = Inl (ValidationError ''mode'' ''Mode must be one of: fast, slow, special''))"
proof (intro conjI impI)
  show "validateMode v = Inr ''fast''" if "\<not> truthy v"
    using that by (simp add: validateMode_def)
  show "validateMode JUndefined = Inr ''fast''" by (simp add: validateMode_def)
  show "validateMode JNull = Inr ''fast''" by (simp add: validateMode_def)
  show "validateMode (JStr []) = Inr ''fast''" by (simp add: validateMode_def)
next
  assume A: "list_all is_js_space a \<and> list_all is_js_space b \<and> m \<in> set validModes
        \<and> differs_only_in_case w m"
  then have low: "toLowerCase w = m"
    using toLowerCase_eq_iff validModes_lower by blast
  with A have ends: "w \<noteq> [] \<and> \<not> is_js_space (hd w) \<and> \<not> is_js_space (last w)"
    using lower_ends validModes_lower by blast
  then have "trim (a @ w @ b) = w" using A trim_sandwich by blast
  then show "validateMode (JStr (a @ w @ b)) = Inr m"
    using A low ends by (simp add: validateMode_def Let_def)
next
  assume B: "s \<noteq> [] \<and> \<not> (\<exists>a w b m. s = a @ w @ b \<and> list_all is_js_space a \<and> list_all is_js_space b
                        \<and> m \<in> set validModes \<and> differs_only_in_case w m)"
  obtain a b where d: "s = a @ trim s @ b" "list_all is_js_space a" "list_all is_js_space b"
    using trim_decomp by blast
  have "toLowerCase (trim s) \<notin> set validModes"
  proof
    assume in_modes: "toLowerCase (trim s) \<in> set validModes"
    then have "differs_only_in_case (trim s) (toLowerCase (trim s))"
      using toLowerCase_eq_iff validModes_lower by blast
    with d in_modes B show False by blast
  qed
  then show "validateMode (JStr s)
            = Inl (ValidationError ''mode'' ''Mode must be one of: fast, slow, special'')"
    using B by (simp add: validateMode_def Let_def join_validModes)
qed

theorem validateMode_default_and_enum_witness:
  "validateMode (JStr []) = Inr ''fast''
   \<and> validateMode (JStr (''  '' @ ''SloW'' @ '' '')) = Inr ''slow''
   \<and> validateMode (JStr ''quick'')
      = Inl (ValidationError ''mode'' ''Mode must be one of: fast, slow, special'')"
proof -
  have sp: "list_all is_js_space ''  ''" "list_all is_js_space '' ''"
    by code_simp+
  have m: "''slow'' \<in> set validModes" by code_simp
  have d: "differs_only_in_case ''SloW'' ''slow''"
    by code_simp
  have q: "validateMode (JStr ''quick'')
      = Inl (ValidationError ''mode'' ''Mode must be one of: fast, slow, special'')"
    by code_simp
  from validateMode_default_and_enum[of "JStr []" "''  ''" "'' ''" "''slow''" "''SloW''" "''quick''"]
    sp m d q
  show ?thesis by simp
qed

subsection \<open>C7: text sanitization\<close>















subsection \<open>C5: batches of usernames\<close>








text \<open>
  The count check comes first: an input of 51 elements whose first element is invalid is
  rejected for its length, and the invalid element is not reported.
\<close>

lemma validateUsernames_limit_first:
  "length (usernameList (''!'' @ concat (replicate 50 '',a''))) = 51
   \<and> usernameList (''!'' @ concat (replicate 50 '',a'')) ! 0 = ''!''
   \<and> validateUsername (JStr ''!'') =
       Inl (ValidationError ''username''
         ''Username can only contain letters, numbers, dots, underscores, and hyphens'')
   \<and> validateUsernames (JStr (''!'' @ concat (replicate 50 '',a''))) =
       Inl (ValidationError ''usernames'' ''Maximum 50 usernames allowed per request'')
   \<and> validateUsernames (JStr (''!'' @ concat (replicate 50 '',a''))) \<noteq>
       Inl (ValidationError ''usernames''
         (''Username #1 is invalid: Invalid username: ''
          @ ''Username can only contain letters, numbers, dots, underscores, and hyphens''))"
  by code_simp

subsection \<open>C2: URL validation\<close>

lemma trim_javascript: "trim ''javascript:alert(1)'' = ''javascript:alert(1)''"
  by code_simp

lemma trim_loopback: "trim ''http://127.0.0.1'' = ''http://127.0.0.1''"
  by code_simp

lemma loopback_private:
  "check_private (toLowerCase ''127.0.0.1'') privatePatterns
     = Some (ValidationError ''url'' ''Private/internal URLs are not allowed'')"
  by code_simp

text \<open>
  Claim C2. \<open>validateUrl\<close> rejects \<open>javascript:alert(1)\<close> with a validation failure
  in production and outside it, given that \<open>isURL\<close> (http and https only, protocol
  required) rejects that string. It rejects \<open>http://127.0.0.1\<close> exactly in production:
  given that \<open>isURL\<close> accepts the string and the \<open>URL\<close> constructor reports the
  hostname \<open>127.0.0.1\<close>, the call fails in production and returns the trimmed URL
  otherwise.
\<close>

theorem validateUrl_javascript_and_loopback:
  "(\<not> isURL ''javascript:alert(1)'' \<longrightarrow>
      validateUrl isURL URL production (JStr ''javascript:alert(1)'') optional
        = Inl (ValidationError ''url'' ''Invalid URL format''))
   \<and> (isURL ''http://127.0.0.1'' \<and> URL ''http://127.0.0.1'' = Some parsed
        \<and> url_hostname parsed = ''127.0.0.1'' \<longrightarrow>
      validateUrl isURL URL True (JStr ''http://127.0.0.1'') optional
        = Inl (ValidationError ''url'' ''Private/internal URLs are not allowed'')
      \<and> validateUrl isURL URL False (JStr ''http://127.0.0.1'') optional
        = Inr ''http://127.0.0.1'')"
proof (intro conjI impI)
  assume "\<not> isURL ''javascript:alert(1)''"
  then show "validateUrl isURL URL production (JStr ''javascript:alert(1)'') optional
        = Inl (ValidationError ''url'' ''Invalid URL format'')"
    by (simp add: validateUrl_def trim_javascript)
next
  assume A: "isURL ''http://127.0.0.1'' \<and> URL ''http://127.0.0.1'' = Some parsed
        \<and> url_hostname parsed = ''127.0.0.1''"
  then show "validateUrl isURL URL True (JStr ''http://127.0.0.1'') optional
        = Inl (ValidationError ''url'' ''Private/internal URLs are not allowed'')"
    by (simp add: validateUrl_def trim_loopback loopback_private)
  from A show "validateUrl isURL URL False (JStr ''http://127.0.0.1'') optional
        = Inr ''http://127.0.0.1''"
    by (simp add: validateUrl_def trim_loopback)
qed


theorem validateUrl_javascript_and_loopback_witness:
  "validateUrl sample_isURL sample_URL True (JStr ''javascript:alert(1)'') False
     = Inl (ValidationError ''url'' ''Invalid URL format'')
   \<and> validateUrl sample_isURL sample_URL False (JStr ''javascript:alert(1)'') False
     = Inl (ValidationError ''url'' ''Invalid URL format'')
   \<and> validateUrl sample_isURL sample_URL True (JStr ''http://127.0.0.1'') False
     = Inl (ValidationError ''url'' ''Private/internal URLs are not allowed'')
   \<and> validateUrl sample_isURL sample_URL False (JStr ''http://127.0.0.1'') False
     = Inr ''http://127.0.0.1''"
proof -
  let ?p = "\<lparr>url_protocol = ''http:'', url_username = [], url_password = [],
              url_host = ''127.0.0.1'', url_hostname = ''127.0.0.1'', url_pathname = ''/''\<rparr>"
  have j: "\<not> sample_isURL ''javascript:alert(1)''" by code_simp
  have l: "sample_isURL ''http://127.0.0.1'' \<and> sample_URL ''http://127.0.0.1'' = Some ?p
        \<and> url_hostname ?p = ''127.0.0.1''"
    by code_simp
  note T = validateUrl_javascript_and_loopback[of sample_isURL sample_URL _ False ?p]
  from T[of True, THEN conjunct1, THEN mp, OF j]
       T[of False, THEN conjunct1, THEN mp, OF j]
       T[of True, THEN conjunct2, THEN mp, OF l]
  show ?thesis by (intro conjI) (elim conjE, assumption)+
qed

subsection \<open>C1 and C9: the response record\<close>




text \<open>
  Claim C9. For every failure whose name is \<open>ValidationError\<close> the response has type
  \<open>validation_error\<close>, status code 400 and the failure's \<open>userMessage\<close> as message
  (its \<open>message\<close> when \<open>userMessage\<close> is undefined or otherwise falsy), and neither
  a \<open>stack\<close> key nor a \<open>details\<close> key -- in production and outside it, with
  \<open>VERBOSE\<close> on or off.
\<close>

theorem validation_failure_response:
  "err_name err = JStr ''ValidationError'' \<longrightarrow>
     resp_type (createErrorResponse production verbose now err) = JStr ''validation_error''
     \<and> resp_statusCode (createErrorResponse production verbose now err) = Some (JNum (Finite 400))
     \<and> resp_message (createErrorResponse production verbose now err)
          = (if truthy (err_userMessage err) then err_userMessage err else err_message err)
     \<and> resp_stack (createErrorResponse production verbose now err) = None
     \<and> resp_details (createErrorResponse production verbose now err) = None"
  by (simp add: createErrorResponse_def ErrorTypes_def Let_def)

theorem validation_failure_response_witness:
  "resp_message (createErrorResponse False True ''2025-11-18T10:00:00.000Z''
      (failure_of (ValidationError ''mode'' ''Mode must be a string'') ''ValidationError: at validateMode''))
     = JStr ''Invalid mode: Mode must be a string''
   \<and> resp_stack (createErrorResponse False True ''2025-11-18T10:00:00.000Z''
      (failure_of (ValidationError ''mode'' ''Mode must be a string'') ''ValidationError: at validateMode''))
     = None
   \<and> resp_details (createErrorResponse False True ''2025-11-18T10:00:00.000Z''
      (failure_of (ValidationError ''mode'' ''Mode must be a string'') ''ValidationError: at validateMode''))
     = None"
proof -
  let ?e = "failure_of (ValidationError ''mode'' ''Mode must be a string'') ''ValidationError: at validateMode''"
  have n: "err_name ?e = JStr ''ValidationError''" by (simp add: failure_of_def)
  from validation_failure_response[of ?e False True "''2025-11-18T10:00:00.000Z''", THEN mp, OF n]
  show ?thesis by (simp add: failure_of_def ValidationError_def)
qed

subsection \<open>C6: order of the checks in a rule-set\<close>



















subsection \<open>C3: loading with a missing secret\<close>

lemma assign_fresh: "key \<notin> fst ` set config \<Longrightarrow> assign key v config = config @ [(key, v)]"
  by (induction config) auto

lemma load_fields_config:
  "distinct (map fst config @ map fst sch) \<Longrightarrow>
   snd (load_fields pf env errors config sch)
     = config @ map (\<lambda>(key, schema). (key, vr_value (validateValue pf key (env key) schema))) sch"
proof (induction sch arbitrary: errors config)
  case Nil
  then show ?case by simp
next
  case (Cons a sch)
  obtain key schema where a: "a = (key, schema)" by (cases a)
  from Cons.prems a have fresh: "key \<notin> fst ` set config" by auto
  from Cons.prems a have d: "distinct (map fst (config @ [(key, vr_value (validateValue pf key (env key) schema))]) @ map fst sch)"
    by auto
  show ?case
    using Cons.IH[OF d] a by (simp add: assign_fresh[OF fresh] Let_def)
qed

lemma load_fields_errors:
  "fst (load_fields pf env errors config sch)
     = errors @ concat (map (\<lambda>(key, schema).
                   if \<not> vr_valid (validateValue pf key (env key) schema)
                   then vr_errors (validateValue pf key (env key) schema) else []) sch)"
proof (induction sch arbitrary: errors config)
  case Nil
  then show ?case by simp
next
  case (Cons a sch)
  obtain key schema where a: "a = (key, schema)" by (cases a)
  show ?case using a by (simp add: Cons.IH Let_def)
qed

lemma schema_keys:
  "map fst (CONFIG_SCHEMA p) =
     [''PORT'', ''HOST'', ''VERBOSE'', ''GOOGLE_API_KEY'', ''GOOGLE_API_CS'', ''SELENIUM_GRID_URL'',
      ''HTTP_PROXY'', ''USER_AGENT'', ''SESSION_SECRET'', ''ENABLE_CORS'', ''CORS_ORIGINS'',
      ''RATE_LIMIT_MAX'', ''RATE_LIMIT_WINDOW'', ''DETECTION_LEVEL'', ''MAX_FAST_WORKERS'',
      ''MAX_SLOW_WORKERS'', ''MAX_SPECIAL_WORKERS'', ''REQUEST_TIMEOUT'', ''ENABLE_FILE_LOGGING'',
      ''LOG_DIR'', ''LOG_LEVEL'', ''SITES_DATA_PATH'', ''NAMES_DATA_PATH'', ''LANGUAGES_DATA_PATH'',
      ''DICT_DATA_PATH'', ''COUNTRIES_DATA_PATH'']"
  by (simp add: CONFIG_SCHEMA_def)

lemma schema_distinct: "distinct (map fst (CONFIG_SCHEMA p))"
  unfolding schema_keys by simp

lemma load_fields_schema:
  "load_fields pf env [] [] (CONFIG_SCHEMA p)
     = (concat (map (\<lambda>(key, schema).
                   if \<not> vr_valid (validateValue pf key (env key) schema)
                   then vr_errors (validateValue pf key (env key) schema) else []) (CONFIG_SCHEMA p)),
        validated_fields pf env p)"
proof -
  have "snd (load_fields pf env [] [] (CONFIG_SCHEMA p)) = validated_fields pf env p"
    using load_fields_config[of "[]" "CONFIG_SCHEMA p" pf env "[]"] schema_distinct[of p]
    by (simp add: validated_fields_def)
  moreover have "fst (load_fields pf env [] [] (CONFIG_SCHEMA p))
       = concat (map (\<lambda>(key, schema).
                   if \<not> vr_valid (validateValue pf key (env key) schema)
                   then vr_errors (validateValue pf key (env key) schema) else []) (CONFIG_SCHEMA p))"
    using load_fields_errors[of pf env "[]" "[]" "CONFIG_SCHEMA p"] by simp
  ultimately show ?thesis by (simp add: prod_eq_iff)
qed

lemma map_of_validated:
  "map_of (validated_fields pf env p) key = field_value pf env p key"
proof -
  have "map_of (map (\<lambda>(key, schema). (key, f key schema)) sch) key
          = (case map_of sch key of Some schema \<Rightarrow> Some (f key schema) | None \<Rightarrow> None)"
    for f :: "string \<Rightarrow> schema_entry \<Rightarrow> cfgval" and sch
    by (induction sch) auto
  then show ?thesis by (simp add: validated_fields_def field_value_def)
qed

lemma invalid_has_errors:
  "\<not> vr_valid (validateValue pf key v schema) \<Longrightarrow> vr_errors (validateValue pf key v schema) \<noteq> []"
  by (auto simp: validateValue_def result_of_def split: option.splits if_splits ctype.splits)

lemma errors_nil_iff:
  "concat (map (\<lambda>(key, schema).
             if \<not> vr_valid (validateValue pf key (env key) schema)
             then vr_errors (validateValue pf key (env key) schema) else []) sch) = []
   \<longleftrightarrow> list_all (\<lambda>(key, schema). vr_valid (validateValue pf key (env key) schema)) sch"
  by (induction sch) (auto simp: invalid_has_errors split: if_splits)

lemma plain_string_value:
  "vr_value (validateValue pf key v (entry TString (CStr d)))
     = CStr (case v of None \<Rightarrow> d | Some x \<Rightarrow> if x = [] then d else x)"
  by (simp add: validateValue_def entry_def result_of_def split: option.splits)

lemma boolean_value:
  "\<exists>b. vr_value (validateValue pf key v (entry TBoolean (CBool d))) = CBool b"
  by (simp add: validateValue_def entry_def result_of_def split: option.splits)

lemma path_lookup:
  "map_of (CONFIG_SCHEMA p) ''SITES_DATA_PATH'' = Some (entry TString (CStr ''./data/sites.json''))"
  "map_of (CONFIG_SCHEMA p) ''NAMES_DATA_PATH'' = Some (entry TString (CStr ''./data/names.json''))"
  "map_of (CONFIG_SCHEMA p) ''LANGUAGES_DATA_PATH'' = Some (entry TString (CStr ''./data/languages.json''))"
  "map_of (CONFIG_SCHEMA p) ''DICT_DATA_PATH'' = Some (entry TString (CStr ''./data/dict.json''))"
  "map_of (CONFIG_SCHEMA p) ''COUNTRIES_DATA_PATH'' = Some (entry TString (CStr ''./data/countries.json''))"
  "map_of (CONFIG_SCHEMA p) ''LOG_DIR'' = Some (entry TString (CStr ''./logs''))"
  "map_of (CONFIG_SCHEMA p) ''ENABLE_FILE_LOGGING'' = Some (entry TBoolean (CBool True))"
  by (simp_all add: CONFIG_SCHEMA_def)

lemma secret_lookup:
  "map_of (CONFIG_SCHEMA p) ''SESSION_SECRET''
     = Some ((entry TString (CStr []))\<lparr>sch_minLength := Some 32, sch_required := p\<rparr>)"
  by (simp add: CONFIG_SCHEMA_def)

lemma path_values:
  "key \<in> set dataPaths \<or> key = ''LOG_DIR'' \<Longrightarrow> \<exists>d. field_value pf env p key = Some (CStr d)"
  by (auto simp: dataPaths_def field_value_def path_lookup plain_string_value)

lemma logging_value: "\<exists>b. field_value pf env p ''ENABLE_FILE_LOGGING'' = Some (CBool b)"
  using boolean_value by (simp add: field_value_def path_lookup)

lemma missing_files_result:
  "list_all (\<lambda>key. \<exists>d. map_of config key = Some (CStr d)) keys \<Longrightarrow>
   missing_files pf config keys
     = Inr (concat (map (\<lambda>key. case map_of config key of
                              Some (CStr d) \<Rightarrow>
                                if \<not> existsSync pf (path_resolve pf d)
                                then [key @ '': '' @ path_resolve pf d] else []
                            | _ \<Rightarrow> []) keys))"
  by (induction keys) (auto simp: resolved_def)

lemma missing_files_validated:
  "missing_files pf (validated_fields pf env p) dataPaths
     = Inr (concat (map (\<lambda>key. case field_value pf env p key of
                              Some (CStr d) \<Rightarrow>
                                if \<not> existsSync pf (path_resolve pf d)
                                then [key @ '': '' @ path_resolve pf d] else []
                            | _ \<Rightarrow> []) dataPaths))"
proof -
  have "list_all (\<lambda>key. \<exists>d. map_of (validated_fields pf env p) key = Some (CStr d)) dataPaths"
    using path_values[of _ pf env p] by (simp add: list_all_iff map_of_validated)
  from missing_files_result[OF this] show ?thesis by (simp add: map_of_validated)
qed

lemma no_missing_iff:
  "concat (map (\<lambda>key. case field_value pf env p key of
                              Some (CStr d) \<Rightarrow>
                                if \<not> existsSync pf (path_resolve pf d)
                                then [key @ '': '' @ path_resolve pf d] else []
                            | _ \<Rightarrow> []) dataPaths) = []
   \<longleftrightarrow> data_files_exist pf env p"
proof -
  have "(concat (map (\<lambda>key. case field_value pf env p key of
                              Some (CStr d) \<Rightarrow>
                                if \<not> existsSync pf (path_resolve pf d)
                                then [key @ '': '' @ path_resolve pf d] else []
                            | _ \<Rightarrow> []) keys) = [])
        = list_all (\<lambda>key. case field_value pf env p key of
                        Some (CStr d) \<Rightarrow> existsSync pf (path_resolve pf d)
                      | _ \<Rightarrow> False) keys"
    if "\<forall>key \<in> set keys. \<exists>d. field_value pf env p key = Some (CStr d)" for keys
    using that by (induction keys) (auto split: if_splits)
  from this[of dataPaths] path_values[of _ pf env p] show ?thesis
    by (simp add: data_files_exist_def)
qed

lemma ensure_log_dir_validated:
  "ensure_log_dir pf (validated_fields pf env p) = None \<longleftrightarrow> log_dir_ready pf env p"
proof -
  obtain b where b: "field_value pf env p ''ENABLE_FILE_LOGGING'' = Some (CBool b)"
    using logging_value by blast
  obtain d where d: "field_value pf env p ''LOG_DIR'' = Some (CStr d)"
    using path_values[of "''LOG_DIR''"] by blast
  show ?thesis
    by (cases b)
       (auto simp: ensure_log_dir_def log_dir_ready_def field_truthy_def resolved_def
          map_of_validated b d)
qed

lemma ensure_log_dir_error:
  "ensure_log_dir pf (validated_fields pf env p) = Some e \<Longrightarrow> \<exists>errors. errors \<noteq> [] \<and> e = ConfigValidationError errors"
proof -
  obtain d where d: "field_value pf env p ''LOG_DIR'' = Some (CStr d)"
    using path_values[of "''LOG_DIR''"] by blast
  assume "ensure_log_dir pf (validated_fields pf env p) = Some e"
  then show ?thesis
    by (auto simp: ensure_log_dir_def resolved_def map_of_validated d split: if_splits)
qed

lemma secret_absent_value:
  "env ''SESSION_SECRET'' = None \<or> env ''SESSION_SECRET'' = Some [] \<Longrightarrow>
   field_value pf env p ''SESSION_SECRET'' = Some (CStr [])"
  by (auto simp: field_value_def secret_lookup validateValue_def entry_def)

lemma secret_required_invalid:
  "env ''SESSION_SECRET'' = None \<or> env ''SESSION_SECRET'' = Some [] \<Longrightarrow> \<not> fields_valid pf env True"
proof -
  assume a: "env ''SESSION_SECRET'' = None \<or> env ''SESSION_SECRET'' = Some []"
  have m: "(''SESSION_SECRET'', (entry TString (CStr []))\<lparr>sch_minLength := Some 32, sch_required := True\<rparr>)
          \<in> set (CONFIG_SCHEMA True)"
    using secret_lookup[of True] by (rule map_of_SomeD)
  have "\<not> vr_valid (validateValue pf ''SESSION_SECRET'' (env ''SESSION_SECRET'')
           ((entry TString (CStr []))\<lparr>sch_minLength := Some 32, sch_required := True\<rparr>))"
    using a by (auto simp: validateValue_def entry_def)
  with m show ?thesis by (auto simp: fields_valid_def list_all_iff)
qed

lemma map_of_assign: "map_of (assign key v config) = (map_of config)(key \<mapsto> v)"
  by (induction config) (auto simp: fun_eq_iff)

lemma keys_assign:
  "map fst (assign key v config)
     = (if key \<in> set (map fst config) then map fst config else map fst config @ [key])"
  by (induction config) (force simp: image_iff)+

lemma loadConfig_steps:
  "loadConfig pf p env =
     (if \<not> fields_valid pf env p then
        Inl (ConfigValidationError
               (concat (map (\<lambda>(key, schema).
                   if \<not> vr_valid (validateValue pf key (env key) schema)
                   then vr_errors (validateValue pf key (env key) schema) else [])
                   (CONFIG_SCHEMA p))))
      else if \<not> data_files_exist pf env p then
        Inl (ConfigValidationError
               (''Required data files not found:'' #
                concat (map (\<lambda>key. case field_value pf env p key of
                              Some (CStr d) \<Rightarrow>
                                if \<not> existsSync pf (path_resolve pf d)
                                then [key @ '': '' @ path_resolve pf d] else []
                            | _ \<Rightarrow> []) dataPaths)))
      else case ensure_log_dir pf (validated_fields pf env p) of
        Some e \<Rightarrow> Inl e
      | None \<Rightarrow>
          if env ''NODE_ENV'' = Some ''production''
             \<and> \<not> field_truthy (validated_fields pf env p) ''SESSION_SECRET'' then
            Inl (ConfigValidationError [''SESSION_SECRET is required in production'', secret_hint])
          else if \<not> field_truthy (validated_fields pf env p) ''SESSION_SECRET'' then
            Inr (assign ''SESSION_SECRET'' (CStr (randomBytes_hex pf)) (validated_fields pf env p))
          else Inr (validated_fields pf env p))"
  unfolding loadConfig_def load_fields_schema Let_def prod.case missing_files_validated
  using errors_nil_iff[of pf env "CONFIG_SCHEMA p"] no_missing_iff[of pf env p]
  by (simp add: fields_valid_def)

lemma secret_falsy:
  "env ''SESSION_SECRET'' = None \<or> env ''SESSION_SECRET'' = Some [] \<Longrightarrow>
   \<not> field_truthy (validated_fields pf env p) ''SESSION_SECRET''"
  by (simp add: field_truthy_def map_of_validated secret_absent_value)

lemma loadConfig_production_fails:
  assumes "env ''SESSION_SECRET'' = None \<or> env ''SESSION_SECRET'' = Some []"
    and "env ''NODE_ENV'' = Some ''production''"
  shows "\<exists>errors. errors \<noteq> [] \<and> loadConfig pf p env = Inl (ConfigValidationError errors)"
proof (cases "fields_valid pf env p")
  case False
  then have "concat (map (\<lambda>(key, schema).
                   if \<not> vr_valid (validateValue pf key (env key) schema)
                   then vr_errors (validateValue pf key (env key) schema) else [])
                   (CONFIG_SCHEMA p)) \<noteq> []"
    using errors_nil_iff[of pf env "CONFIG_SCHEMA p"] by (simp add: fields_valid_def)
  with False show ?thesis by (simp add: loadConfig_steps)
next
  case True
  show ?thesis
  proof (cases "data_files_exist pf env p")
    case False
    with True show ?thesis by (simp add: loadConfig_steps)
  next
    case files: True
    show ?thesis
    proof (cases "ensure_log_dir pf (validated_fields pf env p)")
      case None
      with True files assms secret_falsy[of env pf p, OF assms(1)] show ?thesis
        by (simp add: loadConfig_steps)
    next
      case (Some e)
      with ensure_log_dir_error[OF Some] True files show ?thesis
        by (auto simp: loadConfig_steps)
    qed
  qed
qed

lemma loadConfig_development:
  assumes "env ''SESSION_SECRET'' = None \<or> env ''SESSION_SECRET'' = Some []"
    and "env ''NODE_ENV'' \<noteq> Some ''production''"
  shows "if fields_valid pf env p \<and> data_files_exist pf env p \<and> log_dir_ready pf env p
         then loadConfig pf p env
                = Inr (assign ''SESSION_SECRET'' (CStr (randomBytes_hex pf)) (validated_fields pf env p))
         else (\<exists>errors. errors \<noteq> [] \<and> loadConfig pf p env = Inl (ConfigValidationError errors))"
proof (cases "fields_valid pf env p")
  case False
  then have "concat (map (\<lambda>(key, schema).
                   if \<not> vr_valid (validateValue pf key (env key) schema)
                   then vr_errors (validateValue pf key (env key) schema) else [])
                   (CONFIG_SCHEMA p)) \<noteq> []"
    using errors_nil_iff[of pf env "CONFIG_SCHEMA p"] by (simp add: fields_valid_def)
  with False show ?thesis by (simp add: loadConfig_steps)
next
  case True
  show ?thesis
  proof (cases "data_files_exist pf env p")
    case False
    with True show ?thesis by (simp add: loadConfig_steps)
  next
    case files: True
    show ?thesis
    proof (cases "ensure_log_dir pf (validated_fields pf env p)")
      case None
      then have "log_dir_ready pf env p" by (simp add: ensure_log_dir_validated)
      with None True files assms secret_falsy[of env pf p, OF assms(1)] show ?thesis
        by (simp add: loadConfig_steps)
    next
      case (Some e)
      then have "\<not> log_dir_ready pf env p"
        using ensure_log_dir_validated[of pf env p] by simp
      with ensure_log_dir_error[OF Some] Some True files show ?thesis
        by (auto simp: loadConfig_steps)
    qed
  qed
qed

text \<open>
  Claim C3, as amended. With \<open>SESSION_SECRET\<close> absent or empty: in production mode
  loading throws the aggregated configuration error and returns no snapshot, whatever the
  rest of the environment is. Outside production (both when the module was evaluated and
  when \<open>loadConfig\<close> runs) loading succeeds exactly when every field validates, the
  five data files exist and the log directory exists or can be created; the snapshot then
  holds the freshly drawn random digits as \<open>SESSION_SECRET\<close>, every other field of the
  schema holds its validated or default value, and otherwise the aggregated error is
  thrown.
\<close>

theorem missing_secret_startup:
  "env ''SESSION_SECRET'' = None \<or> env ''SESSION_SECRET'' = Some [] \<longrightarrow>
     (env ''NODE_ENV'' = Some ''production'' \<longrightarrow>
        (\<exists>errors. errors \<noteq> []
           \<and> loadConfig pf production_at_import env = Inl (ConfigValidationError errors)))
     \<and> (env ''NODE_ENV'' \<noteq> Some ''production'' \<and> \<not> production_at_import \<longrightarrow>
        (if fields_valid pf env False \<and> data_files_exist pf env False \<and> log_dir_ready pf env False
         then loadConfig pf production_at_import env
                = Inr (assign ''SESSION_SECRET'' (CStr (randomBytes_hex pf))
                         (validated_fields pf env False))
         else (\<exists>errors. errors \<noteq> []
                 \<and> loadConfig pf production_at_import env = Inl (ConfigValidationError errors))))
     \<and> map_of (assign ''SESSION_SECRET'' (CStr (randomBytes_hex pf)) (validated_fields pf env False))
          ''SESSION_SECRET'' = Some (CStr (randomBytes_hex pf))
     \<and> (\<forall>key. key \<noteq> ''SESSION_SECRET'' \<longrightarrow>
          map_of (assign ''SESSION_SECRET'' (CStr (randomBytes_hex pf)) (validated_fields pf env False))
            key = field_value pf env False key)
     \<and> map fst (assign ''SESSION_SECRET'' (CStr (randomBytes_hex pf)) (validated_fields pf env False))
          = map fst (CONFIG_SCHEMA False)"
proof (intro impI conjI allI)
  assume a: "env ''SESSION_SECRET'' = None \<or> env ''SESSION_SECRET'' = Some []"
  show "\<exists>errors. errors \<noteq> []
           \<and> loadConfig pf production_at_import env = Inl (ConfigValidationError errors)"
    if "env ''NODE_ENV'' = Some ''production''"
    using a that by (rule loadConfig_production_fails)
  show "if fields_valid pf env False \<and> data_files_exist pf env False \<and> log_dir_ready pf env False
         then loadConfig pf production_at_import env
                = Inr (assign ''SESSION_SECRET'' (CStr (randomBytes_hex pf))
                         (validated_fields pf env False))
         else (\<exists>errors. errors \<noteq> []
                 \<and> loadConfig pf production_at_import env = Inl (ConfigValidationError errors))"
    if b: "env ''NODE_ENV'' \<noteq> Some ''production'' \<and> \<not> production_at_import"
  proof -
    from b have p: "production_at_import = False" by simp
    from b have n: "env ''NODE_ENV'' \<noteq> Some ''production''" by simp
    show ?thesis unfolding p using a n by (rule loadConfig_development)
  qed
  show "map_of (assign ''SESSION_SECRET'' (CStr (randomBytes_hex pf)) (validated_fields pf env False))
          ''SESSION_SECRET'' = Some (CStr (randomBytes_hex pf))"
    by (simp add: map_of_assign)
  show "map_of (assign ''SESSION_SECRET'' (CStr (randomBytes_hex pf)) (validated_fields pf env False))
            key = field_value pf env False key" if "key \<noteq> ''SESSION_SECRET''" for key
    using that by (simp add: map_of_assign map_of_validated)
  have "map fst (validated_fields pf env False) = map fst (CONFIG_SCHEMA False)"
    by (simp add: validated_fields_def case_prod_beta comp_def)
  moreover have "''SESSION_SECRET'' \<in> set (map fst (CONFIG_SCHEMA False))"
    unfolding schema_keys by simp
  ultimately show "map fst (assign ''SESSION_SECRET'' (CStr (randomBytes_hex pf))
        (validated_fields pf env False)) = map fst (CONFIG_SCHEMA False)"
    by (simp only: keys_assign if_True)
qed

lemma sample_ready:
  "fields_valid sample_platform empty_env False"
  "data_files_exist sample_platform empty_env False"
  "log_dir_ready sample_platform empty_env False"
  by code_simp+

theorem missing_secret_startup_witness:
  "(\<exists>errors. errors \<noteq> []
      \<and> loadConfig sample_platform True production_env = Inl (ConfigValidationError errors))
   \<and> loadConfig sample_platform False empty_env
        = Inr (assign ''SESSION_SECRET'' (CStr (randomBytes_hex sample_platform))
                 (validated_fields sample_platform empty_env False))
   \<and> map_of (assign ''SESSION_SECRET'' (CStr (randomBytes_hex sample_platform))
                 (validated_fields sample_platform empty_env False)) ''SESSION_SECRET''
        = Some (CStr ''0123456789abcdef0123456789abcdef0123456789abcdef0123456789abcdef'')
   \<and> map_of (assign ''SESSION_SECRET'' (CStr (randomBytes_hex sample_platform))
                 (validated_fields sample_platform empty_env False)) ''PORT''
        = Some (CNum (Finite 9005))"
proof -
  have s1: "production_env ''SESSION_SECRET'' = None \<or> production_env ''SESSION_SECRET'' = Some []"
    by (simp add: production_env_def)
  have e1: "production_env ''NODE_ENV'' = Some ''production''"
    by (simp add: production_env_def)
  have s2: "empty_env ''SESSION_SECRET'' = None \<or> empty_env ''SESSION_SECRET'' = Some []"
    by (simp add: empty_env_def)
  have e2: "empty_env ''NODE_ENV'' \<noteq> Some ''production'' \<and> \<not> False"
    by (simp add: empty_env_def)
  note P = missing_secret_startup[of production_env sample_platform True, THEN mp, OF s1]
  note D = missing_secret_startup[of empty_env sample_platform False, THEN mp, OF s2]
  from P[THEN conjunct1, THEN mp, OF e1]
  have a: "\<exists>errors. errors \<noteq> []
      \<and> loadConfig sample_platform True production_env = Inl (ConfigValidationError errors)" .
  from D[THEN conjunct2, THEN conjunct1, THEN mp, OF e2] sample_ready
  have b: "loadConfig sample_platform False empty_env
        = Inr (assign ''SESSION_SECRET'' (CStr (randomBytes_hex sample_platform))
                 (validated_fields sample_platform empty_env False))"
    by simp
  have r: "randomBytes_hex sample_platform
      = ''0123456789abcdef0123456789abcdef0123456789abcdef0123456789abcdef''"
    by (simp add: sample_platform_def)
  from D[THEN conjunct2, THEN conjunct2, THEN conjunct1]
  have c: "map_of (assign ''SESSION_SECRET'' (CStr (randomBytes_hex sample_platform))
                 (validated_fields sample_platform empty_env False)) ''SESSION_SECRET''
        = Some (CStr ''0123456789abcdef0123456789abcdef0123456789abcdef0123456789abcdef'')"
    by (simp only: r)
  have port: "field_value sample_platform empty_env False ''PORT'' = Some (CNum (Finite 9005))"
    by code_simp
  have ne: "''PORT'' \<noteq> ''SESSION_SECRET''" by simp
  from D[THEN conjunct2, THEN conjunct2, THEN conjunct2, THEN conjunct1, THEN spec, of "''PORT''",
         THEN mp, OF ne] port
  have d: "map_of (assign ''SESSION_SECRET'' (CStr (randomBytes_hex sample_platform))
                 (validated_fields sample_platform empty_env False)) ''PORT''
        = Some (CNum (Finite 9005))"
    by (rule trans)
  from a b c d show ?thesis by (intro conjI)
qed

text \<open>
  The claim as stated has every non-production load with a missing secret succeed. A load
  is still rejected for its other fields: with \<open>PORT=abc\<close> and no secret, outside
  production, the aggregated error is thrown and no snapshot is returned.
\<close>

theorem invalid_port_counterexample:
  "bad_port_env ''SESSION_SECRET'' = None
   \<and> bad_port_env ''NODE_ENV'' \<noteq> Some ''production''
   \<and> loadConfig sample_platform False bad_port_env
       = Inl (ConfigValidationError [''PORT must be a number, got: abc''])"
  by code_simp

subsection \<open>C8: idempotence of the secret projection\<close>














subsection \<open>C4: the frozen snapshot\<close>

lemma freeze_snapshot_frozen:
  "config_frozen (freeze_snapshot snapshot) \<and> config_var (freeze_snapshot snapshot) \<noteq> None"
  by (simp add: freeze_snapshot_def case_prod_beta)

lemma frozen_object_rejects_assignment:
  "initConfig pf p env = Inr st \<Longrightarrow>
   assign_property st key v = Inl ReadOnlyTypeError
   \<and> (get st key \<noteq> Inr None \<longrightarrow> delete_property st key = Inl ReadOnlyTypeError)"
proof -
  assume "initConfig pf p env = Inr st"
  then obtain snapshot where "st = freeze_snapshot snapshot"
    by (auto simp: initConfig_def split: sum.splits)
  with freeze_snapshot_frozen[of snapshot] show ?thesis
    by (auto simp: assign_property_def delete_property_def get_def map_of_eq_None_iff
          split: option.splits)
qed

lemma default_loaded: "initConfig sample_platform False empty_env = Inr default_state"
proof -
  have "\<not> isl (initConfig sample_platform False empty_env)" by code_simp
  then show ?thesis by (cases "initConfig sample_platform False empty_env") (simp_all add: default_state_def)
qed

text \<open>
  Claim C4 at a concrete input. After a successful load the object is frozen and an
  assignment to \<open>CORS_ORIGINS\<close> is rejected, but the array that the property refers to is
  not frozen: \<open>get('CORS_ORIGINS').push('http://evil.example')\<close> appends to it, and the
  next read of \<open>CORS_ORIGINS\<close> through \<open>get\<close> no longer observes the value held at
  creation.
\<close>

theorem frozen_snapshot_array_push:
  "config_frozen default_state
   \<and> get default_state ''CORS_ORIGINS'' = Inr (Some (HArr 0))
   \<and> observe default_state ''CORS_ORIGINS'' = Some (CArr [''http://localhost:3000''])
   \<and> assign_property default_state ''CORS_ORIGINS'' (HArr 1) = Inl ReadOnlyTypeError
   \<and> get (array_push default_state 0 ''http://evil.example'') ''CORS_ORIGINS''
        = Inr (Some (HArr 0))
   \<and> observe (array_push default_state 0 ''http://evil.example'') ''CORS_ORIGINS''
        = Some (CArr [''http://localhost:3000'', ''http://evil.example''])"
proof (intro conjI)
  show "config_frozen default_state" by code_simp
  show "get default_state ''CORS_ORIGINS'' = Inr (Some (HArr 0))" by code_simp
  show "observe default_state ''CORS_ORIGINS'' = Some (CArr [''http://localhost:3000''])"
    by code_simp
  show "assign_property default_state ''CORS_ORIGINS'' (HArr 1) = Inl ReadOnlyTypeError"
    using frozen_object_rejects_assignment[OF default_loaded] by blast
  show "get (array_push default_state 0 ''http://evil.example'') ''CORS_ORIGINS''
        = Inr (Some (HArr 0))"
    by code_simp
  show "observe (array_push default_state 0 ''http://evil.example'') ''CORS_ORIGINS''
        = Some (CArr [''http://localhost:3000'', ''http://evil.example''])"
    by code_simp
qed

end
